theory Spec2Isabelle
  imports Main
begin

section \<open>Soong java rules (java/java.go): shared vocabulary\<close>

text \<open>
  Paths are kept as their string form. The module context collects what the build
  actions report against the module: \<open>ModuleErrorf\<close> and \<open>PropertyErrorf\<close> never
  abort, they append to the error list and the function continues. The format string
  and its arguments are recorded unformatted. Build rules and installed files are
  recorded in the order in which they are requested.
\<close>

type_synonym Path = string
type_synonym Paths = "Path list"

datatype error =
    ModuleError string "string list"
  | PropertyError string string "string list"

datatype build =
    Cp Path Path
  | UncompressDex Path Path Path

record ModuleContext =
  errors :: "error list"
  missingDeps :: "string list"
  builds :: "build list"
  installs :: "(Path \<times> string \<times> Path) list"

definition ModuleErrorf :: "ModuleContext \<Rightarrow> string \<Rightarrow> string list \<Rightarrow> ModuleContext" where
  "ModuleErrorf ctx fmt args = ctx\<lparr>errors := errors ctx @ [ModuleError fmt args]\<rparr>"

definition PropertyErrorf ::
  "ModuleContext \<Rightarrow> string \<Rightarrow> string \<Rightarrow> string list \<Rightarrow> ModuleContext" where
  "PropertyErrorf ctx property fmt args =
     ctx\<lparr>errors := errors ctx @ [PropertyError property fmt args]\<rparr>"

text \<open>\<open>ctx.AddMissingDependencies\<close>: the context keeps the names it is handed, in the
  order of the calls.\<close>

definition AddMissingDependencies :: "ModuleContext \<Rightarrow> string list \<Rightarrow> ModuleContext" where
  "AddMissingDependencies ctx deps = ctx\<lparr>missingDeps := missingDeps ctx @ deps\<rparr>"

definition emptyContext :: ModuleContext where
  "emptyContext = \<lparr>errors = [], missingDeps = [], builds = [], installs = []\<rparr>"

subsection \<open>Go's \<open>filepath.Ext\<close>\<close>

text \<open>
  \<open>Path.Ext\<close> is the extension of the path: the suffix that starts at the last dot of
  the last path element, empty when that element has no dot. \<open>extFrom\<close> scans the
  reversed string, collecting the characters already passed.
\<close>

fun extFrom :: "string \<Rightarrow> string \<Rightarrow> string" where
  "extFrom [] acc = []"
| "extFrom (c # cs) acc =
     (if c = CHR ''/'' then []
      else if c = CHR ''.'' then c # acc
      else extFrom cs (c # acc))"

definition Ext :: "Path \<Rightarrow> string" where
  "Ext p = extFrom (rev p) []"

section \<open>Java language levels\<close>

type_synonym javaVersion = int

definition JAVA_VERSION_UNSUPPORTED :: javaVersion where "JAVA_VERSION_UNSUPPORTED = 0"
definition JAVA_VERSION_6 :: javaVersion where "JAVA_VERSION_6 = 6"
definition JAVA_VERSION_7 :: javaVersion where "JAVA_VERSION_7 = 7"
definition JAVA_VERSION_8 :: javaVersion where "JAVA_VERSION_8 = 8"
definition JAVA_VERSION_9 :: javaVersion where "JAVA_VERSION_9 = 9"
definition JAVA_VERSION_11 :: javaVersion where "JAVA_VERSION_11 = 11"
definition JAVA_VERSION_17 :: javaVersion where "JAVA_VERSION_17 = 17"

text \<open>Returns true if javac targeting this version uses system modules instead of a
  bootclasspath.\<close>

definition usesJavaModules :: "javaVersion \<Rightarrow> bool" where
  "usesJavaModules v = (v \<ge> 9)"

text \<open>\<open>normalizeJavaVersion\<close> returns the level together with the context, which
  gains a property error for the unsupported and the unrecognised levels.\<close>

definition normalizeJavaVersion :: "ModuleContext \<Rightarrow> string \<Rightarrow> ModuleContext \<times> javaVersion" where
  "normalizeJavaVersion ctx javaVersion =
     (if javaVersion \<in> {''1.6'', ''6''} then (ctx, JAVA_VERSION_6)
      else if javaVersion \<in> {''1.7'', ''7''} then (ctx, JAVA_VERSION_7)
      else if javaVersion \<in> {''1.8'', ''8''} then (ctx, JAVA_VERSION_8)
      else if javaVersion \<in> {''1.9'', ''9''} then (ctx, JAVA_VERSION_9)
      else if javaVersion = ''11'' then (ctx, JAVA_VERSION_11)
      else if javaVersion = ''17'' then (ctx, JAVA_VERSION_17)
      else if javaVersion \<in> {''10'', ''12'', ''13'', ''14'', ''15'', ''16''} then
        (PropertyErrorf ctx ''java_version'' ''Java language level %s is not supported''
           [javaVersion], JAVA_VERSION_UNSUPPORTED)
      else
        (PropertyErrorf ctx ''java_version'' ''Unrecognized Java language level'' [],
           JAVA_VERSION_UNSUPPORTED))"

section \<open>Validation of file-generating dependencies\<close>

text \<open>
  \<open>checkProducesJars\<close> walks \<open>dep.Srcs()\<close> and reports one module error for each
  file whose extension is not \<open>.jar\<close>. The arguments are the context, the name of
  the dependency (\<open>ctx.OtherModuleName(dep)\<close>) and its produced files.
\<close>

fun checkProducesJars :: "ModuleContext \<Rightarrow> string \<Rightarrow> Paths \<Rightarrow> ModuleContext" where
  "checkProducesJars ctx depName [] = ctx"
| "checkProducesJars ctx depName (f # fs) =
     checkProducesJars
       (if Ext f \<noteq> ''.jar'' then
          ModuleErrorf ctx
            ''genrule %q must generate files ending with .jar to be used as a libs or static_libs dependency''
            [depName]
        else ctx)
       depName fs"

definition notJarError :: "string \<Rightarrow> error" where
  "notJarError depName =
     ModuleError
       ''genrule %q must generate files ending with .jar to be used as a libs or static_libs dependency''
       [depName]"

section \<open>dex\_import\<close>

record DexImportProperties =
  Jars :: "string list"
  Stem :: "string option"

record OptionalDexJarPath =
  isSet :: bool
  path :: Path

definition makeDexJarPathFromPath :: "Path \<Rightarrow> OptionalDexJarPath" where
  "makeDexJarPathFromPath p = \<lparr>isSet = True, path = p\<rparr>"

definition unsetDexJarPath :: OptionalDexJarPath where
  "unsetDexJarPath = \<lparr>isSet = False, path = []\<rparr>"

definition PathOrNil :: "OptionalDexJarPath \<Rightarrow> Path option" where
  "PathOrNil d = (if isSet d then Some (path d) else None)"

record DexImport =
  dexImportName :: string
  properties :: DexImportProperties
  dexJarFile :: OptionalDexJarPath
  hideApexVariantFromMake :: bool
  dexpreopterInstallPath :: Path
  uncompressedDex :: bool

text \<open>
  What \<open>shouldUncompressDex\<close> and the install step read from the context, the
  configuration and the dexpreopter: the answers of the calls named by the fields.
\<close>

record DexImportEnv =
  IsForPlatform :: bool
  inBootJars :: bool
  dexpreoptDisabled :: bool
  isHost :: bool
  odexOnSystemOther :: bool
  UncompressPrivAppDex :: bool
  loadedByPrivilegedModules :: bool

definition shouldUncompressDex :: "DexImportEnv \<Rightarrow> bool" where
  "shouldUncompressDex env =
     (if \<not> IsForPlatform env then True
      else if inBootJars env then True
      else if \<not> dexpreoptDisabled env \<and> (isHost env \<or> \<not> odexOnSystemOther env) then True
      else if UncompressPrivAppDex env \<and> loadedByPrivilegedModules env then True
      else False)"

datatype panic = IndexOutOfRange nat nat

definition StringDefault :: "string option \<Rightarrow> string \<Rightarrow> string" where
  "StringDefault s def = (case s of Some v \<Rightarrow> v | None \<Rightarrow> def)"

definition DexImport_Stem :: "DexImport \<Rightarrow> string" where
  "DexImport_Stem j = StringDefault (Stem (properties j)) (dexImportName j)"

definition PathForModuleInstall :: "string list \<Rightarrow> Path" where
  "PathForModuleInstall parts = foldl (\<lambda>p q. p @ ''/'' @ q) ''install'' parts"

definition PathForModuleOut :: "string list \<Rightarrow> Path" where
  "PathForModuleOut parts = foldl (\<lambda>p q. p @ ''/'' @ q) ''out'' parts"

text \<open>
  \<open>DexImport.GenerateAndroidBuildActions\<close>. The property error does not stop the
  function: with no jar at all the later \<open>Jars[0]\<close> panics, after the error has been
  recorded; the result pairs the context with either the panic or the updated module.
\<close>

definition DexImport_GenerateAndroidBuildActions ::
  "DexImportEnv \<Rightarrow> ModuleContext \<Rightarrow> DexImport \<Rightarrow> ModuleContext \<times> (panic + DexImport)" where
  "DexImport_GenerateAndroidBuildActions env ctx j =
     (let ctx1 = (if length (Jars (properties j)) \<noteq> 1
                  then PropertyErrorf ctx ''jars'' ''exactly one jar must be provided'' []
                  else ctx);
          j1 = (if \<not> IsForPlatform env then j\<lparr>hideApexVariantFromMake := True\<rparr> else j);
          j2 = j1\<lparr>dexpreopterInstallPath := PathForModuleInstall [''framework'', DexImport_Stem j1 @ ''.jar''],
                  uncompressedDex := shouldUncompressDex env\<rparr>
      in (case Jars (properties j2) of
            [] \<Rightarrow> (ctx1, Inl (IndexOutOfRange 0 0))
          | inputJar # _ \<Rightarrow>
             (let dexOutputFile = PathForModuleOut [dexImportName j2 @ ''.jar''];
                  ctx2 = (if uncompressedDex j2
                          then ctx1\<lparr>builds := builds ctx1 @
                                 [UncompressDex inputJar
                                    (PathForModuleOut [dexImportName j2 @ ''.jar.unaligned''])
                                    dexOutputFile]\<rparr>
                          else ctx1\<lparr>builds := builds ctx1 @ [Cp inputJar dexOutputFile]\<rparr>);
                  j3 = j2\<lparr>dexJarFile := makeDexJarPathFromPath dexOutputFile\<rparr>;
                  ctx3 = (if IsForPlatform env
                          then ctx2\<lparr>installs := installs ctx2 @
                                 [(PathForModuleInstall [''framework''],
                                   DexImport_Stem j3 @ ''.jar'', dexOutputFile)]\<rparr>
                          else ctx2)
              in (ctx3, Inr j3))))"

definition exactlyOneJarError :: error where
  "exactlyOneJarError = PropertyError ''jars'' ''exactly one jar must be provided'' []"

section \<open>Dependency tags\<close>

record dependencyTag =
  name :: string
  runtimeLinked :: bool
  toolchain :: bool

record installDependencyTag =
  installTagName :: string

record usesLibraryDependencyTag = dependencyTag +
  sdkVersion :: int
  optional :: bool

text \<open>A \<open>blueprint.DependencyTag\<close> is an interface value: the dynamic type together
  with the struct. Go's \<open>==\<close> on two of them is equality of both, which is equality of
  this datatype.\<close>

datatype DependencyTag =
    DepTag dependencyTag
  | UsesLibTag usesLibraryDependencyTag
  | InstallTag installDependencyTag
  | OtherTag string

text \<open>
  Modelled from the spec: \<open>dexpreopt.AnySdkVersion\<close> is declared outside \<open>src/\<close>; the
  spec calls it the universal "any version" bucket. The properties below use of the
  number only that it differs from the compatibility versions 28, 29 and 30.
\<close>

definition AnySdkVersion :: int where
  "AnySdkVersion = 10000"

text \<open>Decimal printing, for \<open>fmt.Sprintf("uses-library-%d", sdkVersion)\<close>.\<close>

function showNat :: "nat \<Rightarrow> string" where
  "showNat n =
     (if n < 10 then [char_of (48 + n)]
      else showNat (n div 10) @ [char_of (48 + n mod 10)])"
  by pat_completeness auto
termination
  by (relation "measure (\<lambda>n. n)") auto

definition showInt :: "int \<Rightarrow> string" where
  "showInt i = (if i < 0 then CHR ''-'' # showNat (nat (- i)) else showNat (nat i))"

definition makeUsesLibraryDependencyTag :: "int \<Rightarrow> bool \<Rightarrow> usesLibraryDependencyTag" where
  "makeUsesLibraryDependencyTag sdkVer opt =
     \<lparr>name = ''uses-library-'' @ showInt sdkVer, runtimeLinked = True, toolchain = False,
      sdkVersion = sdkVer, optional = opt\<rparr>"

definition mkTag :: "string \<Rightarrow> bool \<Rightarrow> bool \<Rightarrow> dependencyTag" where
  "mkTag n r t = \<lparr>name = n, runtimeLinked = r, toolchain = t\<rparr>"

definition dataNativeBinsTag :: dependencyTag where
  "dataNativeBinsTag = mkTag ''dataNativeBins'' False False"
definition dataDeviceBinsTag :: dependencyTag where
  "dataDeviceBinsTag = mkTag ''dataDeviceBins'' False False"
definition staticLibTag :: dependencyTag where
  "staticLibTag = mkTag ''staticlib'' False False"
definition libTag :: dependencyTag where
  "libTag = mkTag ''javalib'' True False"
definition sdkLibTag :: dependencyTag where
  "sdkLibTag = mkTag ''sdklib'' True False"
definition bootClasspathTag :: dependencyTag where
  "bootClasspathTag = mkTag ''bootclasspath'' True False"
definition certificateTag :: dependencyTag where
  "certificateTag = mkTag ''certificate'' False False"
definition instrumentationForTag :: dependencyTag where
  "instrumentationForTag = mkTag ''instrumentation_for'' False False"
definition jniLibTag :: dependencyTag where
  "jniLibTag = mkTag ''jnilib'' True False"
definition syspropPublicStubDepTag :: dependencyTag where
  "syspropPublicStubDepTag = mkTag ''sysprop public stub'' False False"
definition javaApiContributionTag :: dependencyTag where
  "javaApiContributionTag = mkTag ''java-api-contribution'' False False"
definition depApiSrcsTag :: dependencyTag where
  "depApiSrcsTag = mkTag ''dep-api-srcs'' False False"
definition jniInstallTag :: installDependencyTag where
  "jniInstallTag = \<lparr>installTagName = ''jni install''\<rparr>"
definition binaryInstallTag :: installDependencyTag where
  "binaryInstallTag = \<lparr>installTagName = ''binary install''\<rparr>"
definition usesLibReqTag :: usesLibraryDependencyTag where
  "usesLibReqTag = makeUsesLibraryDependencyTag AnySdkVersion False"
definition usesLibOptTag :: usesLibraryDependencyTag where
  "usesLibOptTag = makeUsesLibraryDependencyTag AnySdkVersion True"
definition usesLibCompat28OptTag :: usesLibraryDependencyTag where
  "usesLibCompat28OptTag = makeUsesLibraryDependencyTag 28 True"
definition usesLibCompat29ReqTag :: usesLibraryDependencyTag where
  "usesLibCompat29ReqTag = makeUsesLibraryDependencyTag 29 False"
definition usesLibCompat30OptTag :: usesLibraryDependencyTag where
  "usesLibCompat30OptTag = makeUsesLibraryDependencyTag 30 True"

definition IsJniDepTag :: "DependencyTag \<Rightarrow> bool" where
  "IsJniDepTag depTag = (depTag = DepTag jniLibTag)"

definition IsLibDepTag :: "DependencyTag \<Rightarrow> bool" where
  "IsLibDepTag depTag = (depTag = DepTag libTag \<or> depTag = DepTag sdkLibTag)"


section \<open>Class loader context\<close>

text \<open>
  Modelled from the spec: the type \<open>dexpreopt.ClassLoaderContextMap\<close> and its methods
  \<open>AddContext\<close> and \<open>AddContextMap\<close> are defined in package dexpreopt, outside
  \<open>src/\<close>. The spec's data model: a map from SDK-version bucket to an ordered sequence
  of entries, an entry being a library name, an optional jar path, an install path
  and the subtree of that library. A bucket that was never written holds the empty
  sequence. The entry also keeps the optional flag that the caller passes.

  \<open>AddContext\<close> adds the library as a new node at the end of the given bucket, with
  its subtree below it, and reports nothing. \<open>AddContextMap\<close> merges another map
  into this one bucket by bucket, adding no node of its own; the spec gives the
  parent library's name no role in the merge.
\<close>

datatype ContextEntry =
  ContextEntry (libraryName: string) (entryOptional: bool) (jarPath: "Path option")
    (installPath: "Path option") (Subtree: "int \<Rightarrow> ContextEntry list")

type_synonym ClassLoaderContextMap = "int \<Rightarrow> ContextEntry list"

definition emptyCLC :: ClassLoaderContextMap where
  "emptyCLC = (\<lambda>_. [])"

definition AddContext ::
  "ModuleContext \<Rightarrow> ClassLoaderContextMap \<Rightarrow> int \<Rightarrow> string \<Rightarrow> bool \<Rightarrow> Path option \<Rightarrow>
   Path option \<Rightarrow> ClassLoaderContextMap \<Rightarrow> ModuleContext \<times> ClassLoaderContextMap" where
  "AddContext ctx clcMap sdkVer lib opt hostPath instPath nestedClcMap =
     (ctx, clcMap(sdkVer := clcMap sdkVer @ [ContextEntry lib opt hostPath instPath nestedClcMap]))"

definition AddContextMap ::
  "ClassLoaderContextMap \<Rightarrow> ClassLoaderContextMap \<Rightarrow> string \<Rightarrow> ClassLoaderContextMap" where
  "AddContextMap clcMap otherClcMap parentLib = (\<lambda>sdkVer. clcMap sdkVer @ otherClcMap sdkVer)"

section \<open>Modules as seen by their dependents\<close>

record JavaInfo =
  HeaderJars :: Paths
  TransitiveLibsHeaderJars :: Paths
  TransitiveStaticLibsHeaderJars :: Paths
  ImplementationAndResourcesJars :: Paths
  ImplementationJars :: Paths
  ResourceJars :: Paths
  AidlIncludeDirs :: Paths

record UsesLibraryDependency =
  DexJarBuildPath :: OptionalDexJarPath
  DexJarInstallPath :: "Path option"
  ClassLoaderContexts :: ClassLoaderContextMap

text \<open>\<open>SdkHeaderJars\<close> takes the SDK version of the caller.\<close>

record SdkLibraryDependency =
  sharedLibrary :: bool
  SdkHeaderJars :: "string \<Rightarrow> Paths"

text \<open>
  A dependency module, as far as the visiting code can see it: its name, the JavaInfo
  it published (if it has that provider), and, for each of the interfaces
  \<open>UsesLibraryDependency\<close>, \<open>SdkLibraryDependency\<close> and \<open>ProvidesUsesLib\<close>, what
  its methods return when the module implements the interface. \<open>ProvidesUsesLib()\<close>
  returns a pointer, which may be nil.
\<close>

record Module =
  OtherModuleName :: string
  asJavaInfo :: "JavaInfo option"
  asUsesLibraryDependency :: "UsesLibraryDependency option"
  asSdkLibraryDependency :: "SdkLibraryDependency option"
  asProvidesUsesLib :: "string option option"

text \<open>\<open>android.RemoveOptionalPrebuiltPrefix\<close> (package android): the name without a
  leading \<open>prebuilt_\<close>.\<close>

definition RemoveOptionalPrebuiltPrefix :: "string \<Rightarrow> string" where
  "RemoveOptionalPrebuiltPrefix n =
     (if take 9 n = ''prebuilt_'' then drop 9 n else n)"

text \<open>The first half of \<open>addCLCFromDep\<close>: the name under which the dependency counts
  as an SDK (or SDK-like) library, if it does.\<close>

definition sdkLibOf :: "Module \<Rightarrow> string \<Rightarrow> string option" where
  "sdkLibOf depModule depName =
     (if (case asSdkLibraryDependency depModule of Some lib \<Rightarrow> sharedLibrary lib | None \<Rightarrow> False)
      then Some depName
      else (case asProvidesUsesLib depModule of Some ulib \<Rightarrow> ulib | None \<Rightarrow> None))"

text \<open>Add class loader context (CLC) of a given dependency to the current CLC. The
  tag is \<open>ctx.OtherModuleDependencyTag(depModule)\<close>.\<close>

definition addCLCFromDep ::
  "ModuleContext \<Rightarrow> DependencyTag \<Rightarrow> Module \<Rightarrow> ClassLoaderContextMap \<Rightarrow>
   ModuleContext \<times> ClassLoaderContextMap" where
  "addCLCFromDep ctx depTag depModule clcMap =
     (case asUsesLibraryDependency depModule of
        None \<Rightarrow> (ctx, clcMap)
      | Some dep \<Rightarrow>
         (let depName = RemoveOptionalPrebuiltPrefix (OtherModuleName depModule);
              sdkLib = sdkLibOf depModule depName;
              add = (case sdkLib of
                       Some lib \<Rightarrow>
                         AddContext ctx clcMap AnySdkVersion lib False
                           (PathOrNil (DexJarBuildPath dep)) (DexJarInstallPath dep)
                           (ClassLoaderContexts dep)
                     | None \<Rightarrow> (ctx, AddContextMap clcMap (ClassLoaderContexts dep) depName))
          in if IsLibDepTag depTag then add
             else if (case depTag of UsesLibTag tag \<Rightarrow> sdkVersion tag = AnySdkVersion
                      | _ \<Rightarrow> False) then add
             else if depTag = DepTag staticLibTag then
               (if sdkLib \<noteq> None then (ctx, clcMap) else add)
             else (ctx, clcMap)))"

text \<open>The bucket an edge declares, in the spec's words: the SDK version of a
  uses-library edge, the universal bucket for an edge that carries no version.\<close>

definition edgeBucket :: "DependencyTag \<Rightarrow> int" where
  "edgeBucket depTag = (case depTag of UsesLibTag tag \<Rightarrow> sdkVersion tag | _ \<Rightarrow> AnySdkVersion)"

section \<open>java\_import\<close>

text \<open>The fields of \<open>sdkDep\<close>; its \<open>classpath\<close> field is written \<open>sdkClasspath\<close>
  here, apart from the classpath of the builder flags.\<close>

record sdkDep =
  useModule :: bool
  useFiles :: bool
  invalidVersion :: bool
  bootclasspath :: "string list"
  systemModules :: string
  sdkClasspath :: "string list"
  java9Classpath :: "string list"
  frameworkResModule :: string
  jars :: Paths
  aidl :: "Path option"
  noStandardLibs :: bool
  noFrameworksLibs :: bool

definition hasStandardLibs :: "sdkDep \<Rightarrow> bool" where
  "hasStandardLibs s = (\<not> noStandardLibs s)"

definition hasFrameworkLibs :: "sdkDep \<Rightarrow> bool" where
  "hasFrameworkLibs s = (\<not> noStandardLibs s \<and> \<not> noFrameworksLibs s)"

text \<open>
  The three classpaths of \<open>javaBuilderFlags\<close> that \<open>Import\<close> fills.
  \<open>classpath\<close> is the list of jars that form the classpath for javac and kotlinc
  rules; \<open>dexClasspath\<close> is the list of jars that form the classpath for d8 and r8
  rules: header jars of the non-static dependencies, since static dependencies have
  already been combined into the program jar.
\<close>

record javaBuilderFlags =
  bootClasspath :: Paths
  classpath :: Paths
  dexClasspath :: Paths

definition noFlags :: javaBuilderFlags where
  "noFlags = \<lparr>bootClasspath = [], classpath = [], dexClasspath = []\<rparr>"

record ImportState =
  flags :: javaBuilderFlags
  classLoaderContexts :: ClassLoaderContextMap
  ctx :: ModuleContext

text \<open>The body of the function passed to \<open>ctx.VisitDirectDeps\<close>, for one dependency
  with its tag; \<open>sdkVer\<close> is \<open>j.SdkVersion(ctx)\<close>.\<close>

definition Import_visitDep ::
  "string \<Rightarrow> ImportState \<Rightarrow> DependencyTag \<times> Module \<Rightarrow> ImportState" where
  "Import_visitDep sdkVer st dm =
     (let tag = fst dm; depModule = snd dm; fl = flags st;
          fl' = (case asJavaInfo depModule of
                   Some dep \<Rightarrow>
                     (if tag = DepTag libTag \<or> tag = DepTag sdkLibTag then
                        fl\<lparr>classpath := classpath fl @ HeaderJars dep,
                           dexClasspath := dexClasspath fl @ HeaderJars dep\<rparr>
                      else if tag = DepTag staticLibTag then
                        fl\<lparr>classpath := classpath fl @ HeaderJars dep\<rparr>
                      else if tag = DepTag bootClasspathTag then
                        fl\<lparr>bootClasspath := bootClasspath fl @ HeaderJars dep\<rparr>
                      else fl)
                 | None \<Rightarrow>
                     (case asSdkLibraryDependency depModule of
                        Some dep \<Rightarrow>
                          (if tag = DepTag libTag \<or> tag = DepTag sdkLibTag then
                             fl\<lparr>classpath := classpath fl @ SdkHeaderJars dep sdkVer\<rparr>
                           else fl)
                      | None \<Rightarrow> fl));
          r = addCLCFromDep (ctx st) tag depModule (classLoaderContexts st)
      in \<lparr>flags = fl', classLoaderContexts = snd r, ctx = fst r\<rparr>)"

text \<open>\<open>ctx.VisitDirectDeps\<close> calls the function on each direct dependency in turn.\<close>

definition Import_visitDirectDeps ::
  "string \<Rightarrow> ImportState \<Rightarrow> (DependencyTag \<times> Module) list \<Rightarrow> ImportState" where
  "Import_visitDirectDeps sdkVer st deps = foldl (Import_visitDep sdkVer) st deps"

record DeapexerInfo =
  PrebuiltExportPath :: "Path option"
  ApexModuleName :: string

text \<open>What \<open>Import.GenerateAndroidBuildActions\<close> reads besides its dependencies:
  \<open>ctx.Device()\<close>, the apex info, the deapexer module found (nil or not) with the
  exported path of the dex jar, the \<open>compile_dex\<close> property, the SDK version and
  the descriptor that \<open>decodeSdkDep\<close> returns for it.\<close>

record ImportEnv =
  Device :: bool
  ForPrebuiltApex :: bool
  deapexer :: "DeapexerInfo option"
  Compile_dex :: "bool option"
  importSdkVersion :: string
  decodedSdkDep :: sdkDep

definition Bool :: "bool option \<Rightarrow> bool" where
  "Bool b = (case b of Some v \<Rightarrow> v | None \<Rightarrow> False)"

text \<open>
  \<open>Import.GenerateAndroidBuildActions\<close>, from the empty class loader context and the
  empty flags through the visit of the direct dependencies to the choice of the SDK
  jars. The steps that follow in the compile-dex branch (\<open>compileDex\<close>, hidden API
  encoding) and the dexpreopt of a prebuilt apex variant are carried out by other
  files and leave the three fields of the state as they are.
\<close>

definition Import_GenerateAndroidBuildActions ::
  "ImportEnv \<Rightarrow> ModuleContext \<Rightarrow> (DependencyTag \<times> Module) list \<Rightarrow> ImportState" where
  "Import_GenerateAndroidBuildActions env ctx0 deps =
     (let st = Import_visitDirectDeps (importSdkVersion env)
                 \<lparr>flags = noFlags, classLoaderContexts = emptyCLC, ctx = ctx0\<rparr> deps
      in if Device env then
           (if ForPrebuiltApex env then
              (case deapexer env of
                 None \<Rightarrow> st
               | Some di \<Rightarrow>
                  (case PrebuiltExportPath di of
                     Some dexOutputPath \<Rightarrow> st
                   | None \<Rightarrow>
                      st\<lparr>ctx := ModuleErrorf (ctx st)
                        ''internal error: no dex implementation jar available from prebuilt APEX %s''
                        [ApexModuleName di]\<rparr>))
            else if Bool (Compile_dex env) then
              (let sd = decodedSdkDep env
               in if invalidVersion sd then
                    st\<lparr>ctx := AddMissingDependencies
                                (AddMissingDependencies (ctx st) (bootclasspath sd))
                                (java9Classpath sd)\<rparr>
                  else if useFiles sd then
                    st\<lparr>flags := (flags st)\<lparr>classpath := classpath (flags st) @ jars sd\<rparr>\<rparr>
                  else st)
            else st)
         else st)"

section \<open>Exported proguard flags files\<close>

text \<open>The order-preserving set of a list: each element once, at its first position.\<close>

definition firstUnique :: "'a list \<Rightarrow> 'a list" where
  "firstUnique xs = foldl (\<lambda>acc x. if x \<in> set acc then acc else acc @ [x]) [] xs"








section \<open>Example modules\<close>

definition exampleJavaInfo :: "Paths \<Rightarrow> JavaInfo" where
  "exampleJavaInfo hs =
     \<lparr>HeaderJars = hs, TransitiveLibsHeaderJars = hs, TransitiveStaticLibsHeaderJars = [],
      ImplementationAndResourcesJars = hs, ImplementationJars = hs, ResourceJars = [],
      AidlIncludeDirs = []\<rparr>"

text \<open>A plain java library: it publishes JavaInfo and a dex jar, and is neither an SDK
  library nor a provider of a uses-library name.\<close>

definition javaLibraryModule :: "string \<Rightarrow> Paths \<Rightarrow> ClassLoaderContextMap \<Rightarrow> Module" where
  "javaLibraryModule n hs clc =
     \<lparr>OtherModuleName = n, asJavaInfo = Some (exampleJavaInfo hs),
      asUsesLibraryDependency =
        Some \<lparr>DexJarBuildPath = makeDexJarPathFromPath (PathForModuleOut [n, ''dex'', n @ ''.jar'']),
              DexJarInstallPath = Some (PathForModuleInstall [''framework'', n @ ''.jar'']),
              ClassLoaderContexts = clc\<rparr>,
      asSdkLibraryDependency = None, asProvidesUsesLib = None\<rparr>"

text \<open>A shared SDK library with the given dex jar, which may be unset.\<close>

definition sdkLibraryModule ::
  "string \<Rightarrow> Paths \<Rightarrow> OptionalDexJarPath \<Rightarrow> ClassLoaderContextMap \<Rightarrow> Module" where
  "sdkLibraryModule n hs dexJar clc =
     \<lparr>OtherModuleName = n, asJavaInfo = Some (exampleJavaInfo hs),
      asUsesLibraryDependency =
        Some \<lparr>DexJarBuildPath = dexJar,
              DexJarInstallPath = Some (PathForModuleInstall [''framework'', n @ ''.jar'']),
              ClassLoaderContexts = clc\<rparr>,
      asSdkLibraryDependency = Some \<lparr>sharedLibrary = True, SdkHeaderJars = (\<lambda>_. hs)\<rparr>,
      asProvidesUsesLib = None\<rparr>"

text \<open>A component library (stubs) of an SDK library: it provides the name of that
  library through \<open>provides_uses_lib\<close>.\<close>

definition stubsModule :: "string \<Rightarrow> string \<Rightarrow> ClassLoaderContextMap \<Rightarrow> Module" where
  "stubsModule n provided clc =
     (javaLibraryModule n [n @ ''.jar''] clc)\<lparr>asProvidesUsesLib := Some (Some provided)\<rparr>"

definition exampleNestedCLC :: ClassLoaderContextMap where
  "exampleNestedCLC = emptyCLC(AnySdkVersion :=
      [ContextEntry ''android.test.base'' False (Some ''out/android.test.base.jar'')
         (Some ''install/framework/android.test.base.jar'') emptyCLC])"


definition initialImportState :: ImportState where
  "initialImportState = \<lparr>flags = noFlags, classLoaderContexts = emptyCLC, ctx = emptyContext\<rparr>"

text \<open>A descriptor of an SDK version that could not be resolved; it still names
  prebuilt jars, which must not reach the classpath.\<close>

definition exampleSdkDep :: sdkDep where
  "exampleSdkDep =
     \<lparr>useModule = False, useFiles = True, invalidVersion = True,
      bootclasspath = [''sdk_public_33_android''], systemModules = [],
      sdkClasspath = [], java9Classpath = [''sdk_public_33_java9''], frameworkResModule = [],
      jars = [''prebuilts/sdk/33/public/android.jar''], aidl = None,
      noStandardLibs = False, noFrameworksLibs = False\<rparr>"

definition exampleImportEnv :: ImportEnv where
  "exampleImportEnv =
     \<lparr>Device = True, ForPrebuiltApex = False, deapexer = None, Compile_dex = Some True,
      importSdkVersion = ''33'', decodedSdkDep = exampleSdkDep\<rparr>"

definition exampleDexImport :: "string list \<Rightarrow> DexImport" where
  "exampleDexImport js =
     \<lparr>dexImportName = ''vendor-dex'', properties = \<lparr>Jars = js, Stem = None\<rparr>,
      dexJarFile = unsetDexJarPath, hideApexVariantFromMake = False,
      dexpreopterInstallPath = [], uncompressedDex = False\<rparr>"

definition exampleDexImportEnv :: DexImportEnv where
  "exampleDexImportEnv =
     \<lparr>IsForPlatform = True, inBootJars = False, dexpreoptDisabled = True, isHost = False,
      odexOnSystemOther = False, UncompressPrivAppDex = False,
      loadedByPrivilegedModules = False\<rparr>"

section \<open>Auxiliary facts\<close>

lemma errors_checkProducesJars:
  "errors (checkProducesJars c depName fs) =
     errors c @ replicate (length (filter (\<lambda>f. Ext f \<noteq> ''.jar'') fs)) (notJarError depName)"
  by (induction fs arbitrary: c)
     (simp_all add: ModuleErrorf_def notJarError_def replicate_append_same)

lemma checkProducesJars_all_jars:
  "\<forall>f\<in>set fs. Ext f = ''.jar'' \<Longrightarrow> checkProducesJars c depName fs = c"
  by (induction fs arbitrary: c) simp_all

lemma tag_distinct:
  "staticLibTag \<noteq> libTag" "staticLibTag \<noteq> sdkLibTag" "staticLibTag \<noteq> bootClasspathTag"
  "libTag \<noteq> staticLibTag" "sdkLibTag \<noteq> staticLibTag"
  by (simp_all add: staticLibTag_def libTag_def sdkLibTag_def bootClasspathTag_def mkTag_def)


lemma addCLCFromDep_ctx: "fst (addCLCFromDep c depTag depModule clcMap) = c"
  by (simp add: addCLCFromDep_def Let_def AddContext_def split: option.splits)

lemma visit_ctx: "ctx (Import_visitDirectDeps v st deps) = ctx st"
  unfolding Import_visitDirectDeps_def
  by (induction deps arbitrary: st) (simp_all add: Import_visitDep_def Let_def addCLCFromDep_ctx)



lemma distinct_foldl_firstUnique:
  "distinct a \<Longrightarrow> distinct (foldl (\<lambda>acc x. if x \<in> set acc then acc else acc @ [x]) a xs)"
  by (induction xs arbitrary: a) auto

lemma distinct_firstUnique: "distinct (firstUnique xs)"
  by (simp add: firstUnique_def distinct_foldl_firstUnique)








section \<open>The language level\<close>

text \<open>
  C8. For every language level \<open>v\<close>, \<open>usesJavaModules\<close> answers true exactly when
  \<open>v\<close> is at least 9. So each level the file names from 9 up (9, 11, 17) takes the
  system-modules route, and each level below 9 (6, 7, 8 and the unsupported marker 0)
  keeps the legacy bootclasspath.
\<close>

theorem usesJavaModules_iff_ge_9:
  "(usesJavaModules v \<longleftrightarrow> v \<ge> 9)
   \<and> usesJavaModules JAVA_VERSION_9 \<and> usesJavaModules JAVA_VERSION_11
   \<and> usesJavaModules JAVA_VERSION_17
   \<and> \<not> usesJavaModules JAVA_VERSION_8 \<and> \<not> usesJavaModules JAVA_VERSION_7
   \<and> \<not> usesJavaModules JAVA_VERSION_6 \<and> \<not> usesJavaModules JAVA_VERSION_UNSUPPORTED"
  by (simp add: usesJavaModules_def JAVA_VERSION_9_def JAVA_VERSION_11_def JAVA_VERSION_17_def
      JAVA_VERSION_8_def JAVA_VERSION_7_def JAVA_VERSION_6_def JAVA_VERSION_UNSUPPORTED_def)

theorem usesJavaModules_iff_ge_9_witness:
  "usesJavaModules 11 \<and> \<not> usesJavaModules 8 \<and> usesJavaModules 9"
  using usesJavaModules_iff_ge_9 [of 11] usesJavaModules_iff_ge_9 [of 8]
    usesJavaModules_iff_ge_9 [of 9]
  by simp

section \<open>The two validations\<close>

text \<open>
  C7. \<open>checkProducesJars\<close> reports a module error exactly when at least one of the
  produced files has an extension other than \<open>.jar\<close>: the error list changes iff
  some produced file is not a \<open>.jar\<close>; the errors added are one \<open>notJarError\<close> for
  each such file; with only \<open>.jar\<close> files the context is returned unchanged.
\<close>

theorem checkProducesJars_error_iff:
  "(errors (checkProducesJars c depName fs) \<noteq> errors c \<longleftrightarrow> (\<exists>f\<in>set fs. Ext f \<noteq> ''.jar''))
   \<and> errors (checkProducesJars c depName fs) =
       errors c @ replicate (length (filter (\<lambda>f. Ext f \<noteq> ''.jar'') fs)) (notJarError depName)
   \<and> ((\<forall>f\<in>set fs. Ext f = ''.jar'') \<longrightarrow> checkProducesJars c depName fs = c)"
proof -
  have "(filter (\<lambda>f. Ext f \<noteq> ''.jar'') fs \<noteq> []) = (\<exists>f\<in>set fs. Ext f \<noteq> ''.jar'')"
    by (simp add: filter_empty_conv)
  then show ?thesis
    using errors_checkProducesJars [of c depName fs] checkProducesJars_all_jars [of fs c depName]
    by auto
qed

theorem checkProducesJars_error_iff_witness:
  "errors (checkProducesJars emptyContext ''gen'' [''out/a.jar'', ''out/b.srcjar''])
     = [notJarError ''gen'']
   \<and> checkProducesJars emptyContext ''gen'' [''out/a.jar'', ''lib.d/c.jar''] = emptyContext"
  using checkProducesJars_error_iff [of emptyContext "''gen''" "[''out/a.jar'', ''out/b.srcjar'']"]
    checkProducesJars_error_iff [of emptyContext "''gen''" "[''out/a.jar'', ''lib.d/c.jar'']"]
  by (simp add: Ext_def emptyContext_def)

text \<open>
  C10. \<open>DexImport.GenerateAndroidBuildActions\<close> reports the property error on
  \<open>jars\<close> exactly when the number of entries of \<open>Jars\<close> is not one: the errors of the
  call are that single error when the length differs from one, and none when exactly
  one jar is declared. This holds also when the function later panics on \<open>Jars[0]\<close>.
\<close>

theorem DexImport_jars_error_iff:
  "errors (fst (DexImport_GenerateAndroidBuildActions env c j)) =
     errors c @ (if length (Jars (properties j)) \<noteq> 1 then [exactlyOneJarError] else [])
   \<and> (exactlyOneJarError \<in>
        set (drop (length (errors c)) (errors (fst (DexImport_GenerateAndroidBuildActions env c j))))
      \<longleftrightarrow> length (Jars (properties j)) \<noteq> 1)"
  by (simp add: DexImport_GenerateAndroidBuildActions_def Let_def PropertyErrorf_def
      exactlyOneJarError_def split: list.splits)

theorem DexImport_jars_error_iff_witness:
  "errors (fst (DexImport_GenerateAndroidBuildActions exampleDexImportEnv emptyContext
      (exampleDexImport [''a.jar'']))) = []
   \<and> errors (fst (DexImport_GenerateAndroidBuildActions exampleDexImportEnv emptyContext
      (exampleDexImport [''a.jar'', ''b.jar'']))) = [exactlyOneJarError]
   \<and> DexImport_GenerateAndroidBuildActions exampleDexImportEnv emptyContext (exampleDexImport [])
      = (emptyContext\<lparr>errors := [exactlyOneJarError]\<rparr>, Inl (IndexOutOfRange 0 0))"
  using DexImport_jars_error_iff [of exampleDexImportEnv emptyContext "exampleDexImport [''a.jar'']"]
    DexImport_jars_error_iff [of exampleDexImportEnv emptyContext
      "exampleDexImport [''a.jar'', ''b.jar'']"]
    DexImport_jars_error_iff [of exampleDexImportEnv emptyContext "exampleDexImport []"]
  by (simp add: exampleDexImport_def emptyContext_def DexImport_GenerateAndroidBuildActions_def
      Let_def PropertyErrorf_def exactlyOneJarError_def)

section \<open>Classpaths of java\_import\<close>

text \<open>
  C1, as the spec states it, fails on the code: the header jar of a static dependency
  does not reach the dex classpath, and the header jar of a shared (javalib)
  dependency does.
\<close>

theorem static_dex_classpath_counterexample:
  "''b-header.jar'' \<notin> set (dexClasspath (flags (Import_visitDep ''current'' initialImportState
      (DepTag staticLibTag, javaLibraryModule ''b'' [''b-header.jar''] emptyCLC))))
   \<and> ''s-header.jar'' \<in> set (dexClasspath (flags (Import_visitDep ''current'' initialImportState
      (DepTag libTag, javaLibraryModule ''s'' [''s-header.jar''] emptyCLC))))"
  by (simp add: Import_visitDep_def Let_def javaLibraryModule_def exampleJavaInfo_def
      initialImportState_def noFlags_def tag_distinct)

text \<open>
  C1, amended. For a dependency that publishes JavaInfo: when it is static
  (staticlib-tagged) its HeaderJars are appended to the compile classpath only and
  the dex classpath stays as it was; when it is shared (javalib- or sdklib-tagged)
  its HeaderJars are appended to both the compile classpath and the dex classpath.
\<close>

theorem Import_visitDep_classpaths:
  assumes "asJavaInfo depModule = Some dep"
  shows "(tag = DepTag staticLibTag \<longrightarrow>
            classpath (flags (Import_visitDep sdkVer st (tag, depModule)))
              = classpath (flags st) @ HeaderJars dep
          \<and> dexClasspath (flags (Import_visitDep sdkVer st (tag, depModule)))
              = dexClasspath (flags st))
       \<and> (IsLibDepTag tag \<longrightarrow>
            classpath (flags (Import_visitDep sdkVer st (tag, depModule)))
              = classpath (flags st) @ HeaderJars dep
          \<and> dexClasspath (flags (Import_visitDep sdkVer st (tag, depModule)))
              = dexClasspath (flags st) @ HeaderJars dep)"
  using assms
  by (auto simp add: Import_visitDep_def Let_def IsLibDepTag_def tag_distinct)

theorem Import_visitDep_classpaths_witness:
  "classpath (flags (Import_visitDep ''current'' initialImportState
      (DepTag staticLibTag, javaLibraryModule ''b'' [''b-header.jar''] emptyCLC))) = [''b-header.jar'']
   \<and> dexClasspath (flags (Import_visitDep ''current'' initialImportState
      (DepTag staticLibTag, javaLibraryModule ''b'' [''b-header.jar''] emptyCLC))) = []
   \<and> classpath (flags (Import_visitDep ''current'' initialImportState
      (DepTag sdkLibTag, javaLibraryModule ''s'' [''s-header.jar''] emptyCLC))) = [''s-header.jar'']
   \<and> dexClasspath (flags (Import_visitDep ''current'' initialImportState
      (DepTag sdkLibTag, javaLibraryModule ''s'' [''s-header.jar''] emptyCLC))) = [''s-header.jar'']"
  using Import_visitDep_classpaths [of "javaLibraryModule ''b'' [''b-header.jar''] emptyCLC"
      "exampleJavaInfo [''b-header.jar'']" "DepTag staticLibTag" "''current''" initialImportState]
    Import_visitDep_classpaths [of "javaLibraryModule ''s'' [''s-header.jar''] emptyCLC"
      "exampleJavaInfo [''s-header.jar'']" "DepTag sdkLibTag" "''current''" initialImportState]
  by (simp add: javaLibraryModule_def exampleJavaInfo_def initialImportState_def noFlags_def
      IsLibDepTag_def)

text \<open>
  C6. For a device java\_import that is compiled to dex (and is not a prebuilt apex
  variant) whose SDK descriptor has \<open>invalidVersion\<close> set: the names of the
  descriptor's \<open>bootclasspath\<close> and \<open>java9Classpath\<close> are recorded as missing
  dependencies, the flags (so the classpath) are those left by the visit of the
  dependencies, with no SDK jar added, and no error is reported.
\<close>

theorem Import_invalid_sdk_version:
  assumes "Device env" and "\<not> ForPrebuiltApex env" and "Bool (Compile_dex env)"
    and "invalidVersion (decodedSdkDep env)"
  shows "flags (Import_GenerateAndroidBuildActions env ctx0 deps) =
           flags (Import_visitDirectDeps (importSdkVersion env)
                    \<lparr>flags = noFlags, classLoaderContexts = emptyCLC, ctx = ctx0\<rparr> deps)
       \<and> errors (ctx (Import_GenerateAndroidBuildActions env ctx0 deps)) = errors ctx0
       \<and> set (missingDeps (ctx (Import_GenerateAndroidBuildActions env ctx0 deps))) =
           set (missingDeps ctx0) \<union> set (bootclasspath (decodedSdkDep env))
             \<union> set (java9Classpath (decodedSdkDep env))"
  using assms
  by (auto simp add: Import_GenerateAndroidBuildActions_def Let_def AddMissingDependencies_def
        visit_ctx)

theorem Import_invalid_sdk_version_witness:
  "classpath (flags (Import_GenerateAndroidBuildActions exampleImportEnv emptyContext
       [(DepTag libTag, javaLibraryModule ''foo'' [''foo-header.jar''] emptyCLC)])) = [''foo-header.jar'']
   \<and> errors (ctx (Import_GenerateAndroidBuildActions exampleImportEnv emptyContext
       [(DepTag libTag, javaLibraryModule ''foo'' [''foo-header.jar''] emptyCLC)])) = []
   \<and> set (missingDeps (ctx (Import_GenerateAndroidBuildActions exampleImportEnv emptyContext
       [(DepTag libTag, javaLibraryModule ''foo'' [''foo-header.jar''] emptyCLC)])))
       = {''sdk_public_33_android'', ''sdk_public_33_java9''}"
  using Import_invalid_sdk_version [of exampleImportEnv emptyContext
      "[(DepTag libTag, javaLibraryModule ''foo'' [''foo-header.jar''] emptyCLC)]"]
  by (simp add: exampleImportEnv_def exampleSdkDep_def Bool_def emptyContext_def
      Import_visitDirectDeps_def Import_visitDep_def Let_def javaLibraryModule_def
      exampleJavaInfo_def noFlags_def insert_commute)

section \<open>The class loader context of a dependency\<close>

text \<open>
  C2. A dependency reached through a libs or sdklib edge, or through a uses-library
  edge of the any-version bucket, adds exactly one node to the map when it is a shared
  SDK library or provides a uses-library name: the bucket the edge declares grows at
  its end by one entry with the library's name, the dex jar build path, the dex jar
  install path and the dependency's own map as subtree; every other bucket and the
  context stay as they were. The name carried is the module name without the
  prebuilt prefix for a shared SDK library, and the provided name for a module that
  is no shared SDK library and declares \<open>provides_uses_lib\<close>. The bucket declared by
  such an edge is the any-version bucket.
\<close>

theorem addCLCFromDep_adds_node:
  assumes "asUsesLibraryDependency depModule = Some dep"
    and "IsLibDepTag depTag \<or> (\<exists>tag. depTag = UsesLibTag tag \<and> sdkVersion tag = AnySdkVersion)"
  shows "((\<exists>l. asSdkLibraryDependency depModule = Some l \<and> sharedLibrary l) \<longrightarrow>
            addCLCFromDep c depTag depModule clcMap =
              (c, clcMap(edgeBucket depTag := clcMap (edgeBucket depTag) @
                 [ContextEntry (RemoveOptionalPrebuiltPrefix (OtherModuleName depModule)) False
                    (PathOrNil (DexJarBuildPath dep)) (DexJarInstallPath dep)
                    (ClassLoaderContexts dep)])))
       \<and> (\<not> (\<exists>l. asSdkLibraryDependency depModule = Some l \<and> sharedLibrary l)
            \<and> asProvidesUsesLib depModule = Some (Some provided) \<longrightarrow>
            addCLCFromDep c depTag depModule clcMap =
              (c, clcMap(edgeBucket depTag := clcMap (edgeBucket depTag) @
                 [ContextEntry provided False
                    (PathOrNil (DexJarBuildPath dep)) (DexJarInstallPath dep)
                    (ClassLoaderContexts dep)])))
       \<and> edgeBucket depTag = AnySdkVersion"
proof -
  have bucket: "edgeBucket depTag = AnySdkVersion"
    using assms(2) by (auto simp add: edgeBucket_def IsLibDepTag_def)
  have passes: "IsLibDepTag depTag
      \<or> (case depTag of UsesLibTag tag \<Rightarrow> sdkVersion tag = AnySdkVersion | _ \<Rightarrow> False)"
    using assms(2) by auto
  have sdk: "sdkLibOf depModule n = Some n"
    if "asSdkLibraryDependency depModule = Some l" "sharedLibrary l" for l n
    using that by (simp add: sdkLibOf_def)
  have prov: "sdkLibOf depModule n = Some provided"
    if "\<not> (\<exists>l. asSdkLibraryDependency depModule = Some l \<and> sharedLibrary l)"
       "asProvidesUsesLib depModule = Some (Some provided)" for n
    using that by (cases "asSdkLibraryDependency depModule") (simp_all add: sdkLibOf_def)
  have add: "addCLCFromDep c depTag depModule clcMap =
              (c, clcMap(AnySdkVersion := clcMap AnySdkVersion @
                 [ContextEntry lib False (PathOrNil (DexJarBuildPath dep)) (DexJarInstallPath dep)
                    (ClassLoaderContexts dep)]))"
    if "sdkLibOf depModule (RemoveOptionalPrebuiltPrefix (OtherModuleName depModule)) = Some lib"
    for lib
    using that assms(1) passes
    by (auto simp add: addCLCFromDep_def Let_def AddContext_def)
  show ?thesis
    using bucket sdk prov add by (auto simp del: fun_upd_apply)
qed

theorem addCLCFromDep_adds_node_witness:
  "snd (addCLCFromDep emptyContext (UsesLibTag usesLibOptTag)
          (sdkLibraryModule ''prebuilt_android.test.runner'' [''runner-header.jar'']
             (makeDexJarPathFromPath ''out/runner.jar'') exampleNestedCLC) emptyCLC) AnySdkVersion =
     [ContextEntry ''android.test.runner'' False (Some ''out/runner.jar'')
        (Some ''install/framework/prebuilt_android.test.runner.jar'') exampleNestedCLC]
   \<and> snd (addCLCFromDep emptyContext (UsesLibTag usesLibOptTag)
          (sdkLibraryModule ''prebuilt_android.test.runner'' [''runner-header.jar'']
             (makeDexJarPathFromPath ''out/runner.jar'') exampleNestedCLC) emptyCLC) 28 = []
   \<and> snd (addCLCFromDep emptyContext (DepTag libTag)
          (stubsModule ''foo.stubs'' ''foo'' emptyCLC) exampleNestedCLC) AnySdkVersion =
     exampleNestedCLC AnySdkVersion @
     [ContextEntry ''foo'' False (Some ''out/foo.stubs/dex/foo.stubs.jar'')
        (Some ''install/framework/foo.stubs.jar'') emptyCLC]"
proof -
  have ne: "AnySdkVersion \<noteq> 28"
    by (simp add: AnySdkVersion_def)
  show ?thesis
  using addCLCFromDep_adds_node [where
      depModule = "sdkLibraryModule ''prebuilt_android.test.runner'' [''runner-header.jar'']
         (makeDexJarPathFromPath ''out/runner.jar'') exampleNestedCLC"
      and dep = "\<lparr>DexJarBuildPath = makeDexJarPathFromPath ''out/runner.jar'',
        DexJarInstallPath = Some (PathForModuleInstall [''framework'', ''prebuilt_android.test.runner.jar'']),
        ClassLoaderContexts = exampleNestedCLC\<rparr>"
      and depTag = "UsesLibTag usesLibOptTag" and c = emptyContext and clcMap = emptyCLC]
    addCLCFromDep_adds_node [where
      depModule = "stubsModule ''foo.stubs'' ''foo'' emptyCLC"
      and dep = "\<lparr>DexJarBuildPath = makeDexJarPathFromPath (PathForModuleOut [''foo.stubs'', ''dex'', ''foo.stubs.jar'']),
        DexJarInstallPath = Some (PathForModuleInstall [''framework'', ''foo.stubs.jar'']),
        ClassLoaderContexts = emptyCLC\<rparr>"
      and depTag = "DepTag libTag" and provided = "''foo''" and c = emptyContext
      and clcMap = exampleNestedCLC] ne
  by (simp add: sdkLibraryModule_def stubsModule_def javaLibraryModule_def
      RemoveOptionalPrebuiltPrefix_def IsLibDepTag_def
      usesLibOptTag_def makeUsesLibraryDependencyTag_def edgeBucket_def PathOrNil_def
      makeDexJarPathFromPath_def PathForModuleInstall_def PathForModuleOut_def emptyCLC_def)
qed



text \<open>
  C4, as the spec states it, fails on the code: a required uses-library edge of the
  compatibility bucket 29 to an SDK library that publishes no dex jar path records no
  entry at all, and neither does a required any-version edge to a library that is no
  SDK library and provides no name.
\<close>

theorem required_compat_edge_counterexample:
  "\<not> optional usesLibCompat29ReqTag \<and> \<not> optional usesLibReqTag
   \<and> PathOrNil unsetDexJarPath = None
   \<and> snd (addCLCFromDep emptyContext (UsesLibTag usesLibCompat29ReqTag)
        (sdkLibraryModule ''org.apache.http.legacy'' [] unsetDexJarPath emptyCLC) emptyCLC)
       = emptyCLC
   \<and> snd (addCLCFromDep emptyContext (UsesLibTag usesLibReqTag)
        ((javaLibraryModule ''plain'' [] emptyCLC)
           \<lparr>asUsesLibraryDependency := Some \<lparr>DexJarBuildPath = unsetDexJarPath,
              DexJarInstallPath = None, ClassLoaderContexts = emptyCLC\<rparr>\<rparr>) emptyCLC)
       = emptyCLC"
  by (simp add: usesLibCompat29ReqTag_def usesLibReqTag_def makeUsesLibraryDependencyTag_def
      sdkLibraryModule_def javaLibraryModule_def unsetDexJarPath_def PathOrNil_def
      addCLCFromDep_def Let_def IsLibDepTag_def sdkLibOf_def AddContextMap_def emptyCLC_def
      AnySdkVersion_def)

text \<open>
  C4, amended. For a required uses-library dependency (the tag's optional flag is
  false) reached through an edge of the any-version bucket, that is a shared SDK
  library or provides a uses-library name, and whose dex jar build path is not set:
  the entry for the library is appended to the edge's bucket as a required entry with
  an absent jar path, and no error is reported.
\<close>

theorem addCLCFromDep_absent_jar_path:
  assumes "asUsesLibraryDependency depModule = Some dep"
    and "\<not> isSet (DexJarBuildPath dep)"
    and "depTag = UsesLibTag tag" and "\<not> optional tag" and "sdkVersion tag = AnySdkVersion"
    and "(\<exists>l. asSdkLibraryDependency depModule = Some l \<and> sharedLibrary l)
           \<and> lib = RemoveOptionalPrebuiltPrefix (OtherModuleName depModule)
         \<or> \<not> (\<exists>l. asSdkLibraryDependency depModule = Some l \<and> sharedLibrary l)
           \<and> asProvidesUsesLib depModule = Some (Some lib)"
  shows "addCLCFromDep c depTag depModule clcMap =
           (c, clcMap(sdkVersion tag := clcMap (sdkVersion tag) @
              [ContextEntry lib (optional tag) None (DexJarInstallPath dep)
                 (ClassLoaderContexts dep)]))
       \<and> errors (fst (addCLCFromDep c depTag depModule clcMap)) = errors c"
proof -
  have "sdkLibOf depModule (RemoveOptionalPrebuiltPrefix (OtherModuleName depModule)) = Some lib"
    using assms(6)
    by (cases "asSdkLibraryDependency depModule") (auto simp add: sdkLibOf_def)
  then show ?thesis
    using assms(1-5)
    by (simp add: addCLCFromDep_def Let_def AddContext_def PathOrNil_def IsLibDepTag_def)
qed

theorem addCLCFromDep_absent_jar_path_witness:
  "addCLCFromDep emptyContext (UsesLibTag usesLibReqTag)
      (sdkLibraryModule ''org.apache.http.legacy'' [] unsetDexJarPath emptyCLC) emptyCLC
     = (emptyContext, emptyCLC(AnySdkVersion :=
          [ContextEntry ''org.apache.http.legacy'' False None
             (Some ''install/framework/org.apache.http.legacy.jar'') emptyCLC]))
   \<and> snd (addCLCFromDep emptyContext (UsesLibTag usesLibReqTag)
      ((stubsModule ''legacy.impl'' ''org.apache.http.legacy'' emptyCLC)
         \<lparr>asUsesLibraryDependency := Some \<lparr>DexJarBuildPath = unsetDexJarPath,
            DexJarInstallPath = None, ClassLoaderContexts = emptyCLC\<rparr>\<rparr>) emptyCLC) AnySdkVersion
     = [ContextEntry ''org.apache.http.legacy'' False None None emptyCLC]"
  using addCLCFromDep_absent_jar_path [where
      depModule = "sdkLibraryModule ''org.apache.http.legacy'' [] unsetDexJarPath emptyCLC"
      and dep = "\<lparr>DexJarBuildPath = unsetDexJarPath,
        DexJarInstallPath = Some (PathForModuleInstall [''framework'', ''org.apache.http.legacy.jar'']),
        ClassLoaderContexts = emptyCLC\<rparr>"
      and depTag = "UsesLibTag usesLibReqTag" and tag = usesLibReqTag
      and lib = "''org.apache.http.legacy''" and c = emptyContext and clcMap = emptyCLC]
    addCLCFromDep_absent_jar_path [where
      depModule = "(stubsModule ''legacy.impl'' ''org.apache.http.legacy'' emptyCLC)
         \<lparr>asUsesLibraryDependency := Some \<lparr>DexJarBuildPath = unsetDexJarPath,
            DexJarInstallPath = None, ClassLoaderContexts = emptyCLC\<rparr>\<rparr>"
      and dep = "\<lparr>DexJarBuildPath = unsetDexJarPath,
            DexJarInstallPath = None, ClassLoaderContexts = emptyCLC\<rparr>"
      and depTag = "UsesLibTag usesLibReqTag" and tag = usesLibReqTag
      and lib = "''org.apache.http.legacy''" and c = emptyContext and clcMap = emptyCLC]
  by (simp add: sdkLibraryModule_def stubsModule_def javaLibraryModule_def unsetDexJarPath_def
      usesLibReqTag_def makeUsesLibraryDependencyTag_def RemoveOptionalPrebuiltPrefix_def
      emptyCLC_def PathForModuleInstall_def)

section \<open>Exported keep-rule files\<close>




end
